theory Spec2Isabelle
  imports Complex_Main "HOL-Library.AList"
begin

section \<open>Python strings\<close>

text \<open>
  A Python \<open>str\<close> is modelled as a \<open>string\<close> whose characters are read as the code
  points U+0000 to U+00FF. Texts with code points beyond that range are outside the model;
  the pictographs that open some of the fixed user messages of \<open>app.py\<close> are therefore
  left out of the message texts below.
\<close>

definition py_isspace :: "char \<Rightarrow> bool" where
  \<comment> \<open>the characters \<open>c\<close> below U+0100 with \<open>c.isspace()\<close>\<close>
  "py_isspace c = (c \<in> set [CHR 0x09, CHR 0x0A, CHR 0x0B, CHR 0x0C, CHR 0x0D, CHR 0x1C,
     CHR 0x1D, CHR 0x1E, CHR 0x1F, CHR 0x20, CHR 0x85, CHR 0xA0])"

definition py_strip :: "string \<Rightarrow> string" where
  \<comment> \<open>\<open>s.strip()\<close>\<close>
  "py_strip s = rev (dropWhile py_isspace (rev (dropWhile py_isspace s)))"

definition upper_letters :: string where
  "upper_letters = ''ABCDEFGHIJKLMNOPQRSTUVWXYZ'' @
     [CHR 0xC0, CHR 0xC1, CHR 0xC2, CHR 0xC3, CHR 0xC4, CHR 0xC5, CHR 0xC6, CHR 0xC7,
      CHR 0xC8, CHR 0xC9, CHR 0xCA, CHR 0xCB, CHR 0xCC, CHR 0xCD, CHR 0xCE, CHR 0xCF,
      CHR 0xD0, CHR 0xD1, CHR 0xD2, CHR 0xD3, CHR 0xD4, CHR 0xD5, CHR 0xD6,
      CHR 0xD8, CHR 0xD9, CHR 0xDA, CHR 0xDB, CHR 0xDC, CHR 0xDD, CHR 0xDE]"

definition lower_letters :: string where
  "lower_letters = ''abcdefghijklmnopqrstuvwxyz'' @
     [CHR 0xE0, CHR 0xE1, CHR 0xE2, CHR 0xE3, CHR 0xE4, CHR 0xE5, CHR 0xE6, CHR 0xE7,
      CHR 0xE8, CHR 0xE9, CHR 0xEA, CHR 0xEB, CHR 0xEC, CHR 0xED, CHR 0xEE, CHR 0xEF,
      CHR 0xF0, CHR 0xF1, CHR 0xF2, CHR 0xF3, CHR 0xF4, CHR 0xF5, CHR 0xF6,
      CHR 0xF8, CHR 0xF9, CHR 0xFA, CHR 0xFB, CHR 0xFC, CHR 0xFD, CHR 0xFE]"

definition py_lower_char :: "char \<Rightarrow> char" where
  "py_lower_char c = (case map_of (zip upper_letters lower_letters) c of Some l \<Rightarrow> l | None \<Rightarrow> c)"

definition py_lower :: "string \<Rightarrow> string" where
  \<comment> \<open>\<open>s.lower()\<close>\<close>
  "py_lower s = map py_lower_char s"

definition startswith :: "string \<Rightarrow> string \<Rightarrow> bool" where
  \<comment> \<open>\<open>s.startswith(p)\<close>\<close>
  "startswith s p = (take (length p) s = p)"

definition py_slice :: "string \<Rightarrow> nat \<Rightarrow> nat \<Rightarrow> string" where
  \<comment> \<open>\<open>s[a:-b]\<close> for \<open>b > 0\<close>: the stop index is \<open>max (len s - b) 0\<close>, and a start index at
      or beyond the stop gives the empty string\<close>
  "py_slice s a b = drop a (take (length s - b) s)"

fun split_on :: "char \<Rightarrow> string \<Rightarrow> string list" where
  \<comment> \<open>\<open>s.split(sep)\<close> for a one-character separator; the result is never empty\<close>
  "split_on sep [] = [[]]"
| "split_on sep (c # cs) =
     (if c = sep then [] # split_on sep cs
      else (case split_on sep cs of w # ws \<Rightarrow> (c # w) # ws | [] \<Rightarrow> [[c]]))"

fun py_join :: "string \<Rightarrow> string list \<Rightarrow> string" where
  \<comment> \<open>\<open>sep.join(xs)\<close>\<close>
  "py_join sep [] = []"
| "py_join sep [x] = x"
| "py_join sep (x # y # ys) = x @ sep @ py_join sep (y # ys)"

section \<open>The field schema and the add-field form\<close>

record field_definition =
  field_name :: string
  description :: string
  column_name :: string

datatype level = Status | Success | Warning | Error

type_synonym message = "level \<times> string"

text \<open>
  The body of \<open>with st.sidebar.form("add_field_form")\<close> in \<open>render_sidebar\<close>
  (lines 176 to 193 of \<open>app.py\<close>): the session's \<open>custom_fields\<close> are passed in and
  returned, the sidebar messages are returned beside them. A non-empty string is truthy.
  The \<open>else\<close> branch that reports "All fields are required!" belongs to \<open>if submitted\<close>.
\<close>

definition add_field :: "bool \<Rightarrow> string \<Rightarrow> string \<Rightarrow> string \<Rightarrow> field_definition list \<Rightarrow> field_definition list \<times> message list" where
  "add_field submitted fname descr cname custom_fields =
     (if submitted then
        (if fname \<noteq> [] \<and> descr \<noteq> [] \<and> cname \<noteq> [] then
           (let new_field = \<lparr>field_name = py_strip fname, description = py_strip descr,
                              column_name = py_strip cname\<rparr>;
                existing_names = map field_name custom_fields
            in if py_lower fname \<notin> set existing_names
               then (custom_fields @ [new_field], [(Success, ''Added: '' @ cname)])
               else (custom_fields, [(Error, ''Field name already exists!'')]))
         else (custom_fields, []))
      else (custom_fields, [(Error, ''All fields are required!'')]))"

definition unique_ci :: "field_definition list \<Rightarrow> bool" where
  \<comment> \<open>the schema invariant: no two fields carry the same \<open>field_name\<close> up to letter case\<close>
  "unique_ci fs = distinct (map (\<lambda>f. py_lower (field_name f)) fs)"

section \<open>Cleaning the service's response\<close>

text \<open>
  Lines 87 to 93 of \<open>parse_resume_with_gemma\<close>: the response text is stripped of
  surrounding whitespace; a text that starts with the tagged fence loses its first seven and
  its last three characters, one that starts with the plain fence its first three and its
  last three characters.
\<close>

definition clean_json_response :: "string \<Rightarrow> string" where
  "clean_json_response text =
     (let json_text = py_strip text
      in if startswith json_text ''```json'' then py_slice json_text 7 3
         else if startswith json_text ''```'' then py_slice json_text 3 3
         else json_text)"

section \<open>Values, exceptions and the outside world\<close>

text \<open>
  What \<open>json.loads\<close> can return. \<open>JNull\<close> is Python's \<open>None\<close>, which
  \<open>parse_resume_with_gemma\<close> also returns on failure. A dictionary is an association
  list in insertion order; \<open>AList.update\<close> is the item assignment \<open>d[k] = v\<close> (the value is
  replaced in place, a new key is appended). Finite floats are kept as rationals.
\<close>

datatype json = JNull | JBool bool | JInt int | JFloat rat | JStr string
  | JArr "json list" | JObj "(string \<times> json) list"

type_synonym py_dict = "(string \<times> json) list"

fun truthy :: "json \<Rightarrow> bool" where
  \<comment> \<open>the truth value of \<open>if parsed_data:\<close>\<close>
  "truthy JNull = False"
| "truthy (JBool b) = b"
| "truthy (JInt n) = (n \<noteq> 0)"
| "truthy (JFloat q) = (q \<noteq> 0)"
| "truthy (JStr s) = (s \<noteq> [])"
| "truthy (JArr xs) = (xs \<noteq> [])"
| "truthy (JObj d) = (d \<noteq> [])"

datatype exn = TypeError string | LibraryError string

fun exn_text :: "exn \<Rightarrow> string" where
  \<comment> \<open>\<open>str(e)\<close>, as the f-strings of the error messages render it\<close>
  "exn_text (TypeError m) = m"
| "exn_text (LibraryError m) = m"

fun item_assignment_error :: "json \<Rightarrow> exn" where
  \<comment> \<open>what \<open>parsed_data['file_name'] = ...\<close> raises on a value that is not a dictionary\<close>
  "item_assignment_error (JArr xs) = TypeError ''list indices must be integers or slices, not str''"
| "item_assignment_error (JStr s) = TypeError '''str' object does not support item assignment''"
| "item_assignment_error (JInt n) = TypeError '''int' object does not support item assignment''"
| "item_assignment_error (JFloat q) = TypeError '''float' object does not support item assignment''"
| "item_assignment_error (JBool b) = TypeError '''bool' object does not support item assignment''"
| "item_assignment_error v = TypeError '''NoneType' object does not support item assignment''"

record datetime =
  year :: nat
  month :: nat
  day :: nat
  hour :: nat
  minute :: nat
  second :: nat
  microsecond :: nat

definition digit :: "nat \<Rightarrow> char" where
  "digit n = ''0123456789'' ! (n mod 10)"

definition pad2 :: "nat \<Rightarrow> string" where
  "pad2 n = [digit (n div 10), digit n]"

definition pad4 :: "nat \<Rightarrow> string" where
  "pad4 n = [digit (n div 1000), digit (n div 100), digit (n div 10), digit n]"

definition strftime :: "datetime \<Rightarrow> string" where
  \<comment> \<open>\<open>dt.strftime("%Y-%m-%d %H:%M:%S")\<close>, for the four-digit years a clock returns\<close>
  "strftime dt = pad4 (year dt) @ ''-'' @ pad2 (month dt) @ ''-'' @ pad2 (day dt) @ '' '' @
     pad2 (hour dt) @ '':'' @ pad2 (minute dt) @ '':'' @ pad2 (second dt)"

record upload =
  name :: string
  payload :: string

text \<open>
  The libraries and services the two source files call are parameters of the model. A call
  that raises returns \<open>Inl\<close>. The service and the clock are asked once per document and
  take the document's position in the batch (the \<open>i\<close> of \<open>enumerate\<close>).
  \<^item> \<open>pdf_reader\<close>: \<open>PyPDF2.PdfReader(io.BytesIO(uploaded_file.read())).pages\<close>, each page
    with the outcome of its \<open>extract_text()\<close>;
  \<^item> \<open>docx_process\<close>: \<open>docx2txt.process(io.BytesIO(uploaded_file.read()))\<close>;
  \<^item> \<open>generate_content\<close>: \<open>model.generate_content(prompt).text\<close>;
  \<^item> \<open>json_loads\<close>: \<open>json.loads\<close>;
  \<^item> \<open>now\<close>: \<open>datetime.now()\<close>.
\<close>

record env =
  pdf_reader :: "string \<Rightarrow> exn + (exn + string) list"
  docx_process :: "string \<Rightarrow> exn + string"
  generate_content :: "nat \<Rightarrow> string \<Rightarrow> exn + string"
  json_loads :: "string \<Rightarrow> exn + json"
  now :: "nat \<Rightarrow> datetime"

section \<open>Text extraction (cv2con.py)\<close>

fun pages_loop :: "(exn + string) list \<Rightarrow> string \<Rightarrow> exn + string" where
  \<comment> \<open>\<open>for page in pdf_reader.pages: text += page.extract_text()\<close>\<close>
  "pages_loop [] text = Inr text"
| "pages_loop (page # pages) text =
     (case page of Inl e \<Rightarrow> Inl e | Inr t \<Rightarrow> pages_loop pages (text @ t))"

definition extract_text_from_pdf :: "env \<Rightarrow> upload \<Rightarrow> string option \<times> message list" where
  "extract_text_from_pdf E uploaded_file =
     (case pdf_reader E (payload uploaded_file) of
        Inl e \<Rightarrow> (None, [(Error, ''Error reading PDF '' @ name uploaded_file @ '': '' @ exn_text e)])
      | Inr pages \<Rightarrow>
          (case pages_loop pages [] of
             Inl e \<Rightarrow> (None, [(Error, ''Error reading PDF '' @ name uploaded_file @ '': '' @ exn_text e)])
           | Inr text \<Rightarrow> (Some text, [])))"

definition extract_text_from_docx :: "env \<Rightarrow> upload \<Rightarrow> string option \<times> message list" where
  "extract_text_from_docx E uploaded_file =
     (case docx_process E (payload uploaded_file) of
        Inl e \<Rightarrow> (None, [(Error, ''Error reading DOCX '' @ name uploaded_file @ '': '' @ exn_text e)])
      | Inr text \<Rightarrow> (Some text, []))"

section \<open>The prompt\<close>

definition field_line :: "field_definition \<Rightarrow> string" where
  \<comment> \<open>\<open>f"- {field['field_name']}: {field['description']}"\<close>\<close>
  "field_line f = ''- '' @ field_name f @ '': '' @ description f"

fun field_descriptions_loop :: "field_definition list \<Rightarrow> string list \<Rightarrow> string list" where
  \<comment> \<open>\<open>for field in custom_fields: field_descriptions.append(...)\<close>\<close>
  "field_descriptions_loop [] field_descriptions = field_descriptions"
| "field_descriptions_loop (f # fs) field_descriptions =
     field_descriptions_loop fs (field_descriptions @ [field_line f])"

definition special_instructions :: "string list" where
  "special_instructions =
     [''1. If any field is not found, use 'Not Found' as the value'',
      ''2. Extract only factual information present in the resume'',
      ''3. Be precise and consistent with data formats'',
      ''4. For numeric fields, extract only numbers when possible'',
      ''5. For date fields, use standard formats (YYYY or MM/YYYY)'']"

definition build_dynamic_prompt :: "field_definition list \<Rightarrow> (field_definition list \<times> string list \<times> string list) \<times> message list" where
  "build_dynamic_prompt custom_fields =
     (if custom_fields = [] then
        (([], [], []), [(Warning, ''Please add fields in the sidebar before processing resumes.'')])
      else ((custom_fields, field_descriptions_loop custom_fields [], special_instructions), []))"

definition prompt_text :: "string list \<Rightarrow> string list \<Rightarrow> string \<Rightarrow> string" where
  \<comment> \<open>the f-string of lines 67 to 83; \<open>chr(10)\<close> is the newline\<close>
  "prompt_text field_descriptions instructions resume_text =
     ''\<newline>Extract the following information from this resume text and return it as a JSON object:\<newline>\<newline>**Required Fields:**\<newline>'' @
     py_join [CHR 0x0A] field_descriptions @
     ''\<newline>\<newline>**Instructions:**\<newline>'' @
     py_join [CHR 0x0A] instructions @
     ''\<newline>\<newline>**Output Format:**\<newline>Return only a valid JSON object with the exact field names specified above.\<newline>\<newline>**Resume Text:**\<newline>'' @
     resume_text @
     ''\<newline>\<newline>**Response:**\<newline>''"

definition resume_prompt :: "field_definition list \<Rightarrow> string \<Rightarrow> string option" where
  \<comment> \<open>the prompt \<open>parse_resume_with_gemma\<close> sends; with no fields it returns before building one\<close>
  "resume_prompt custom_fields resume_text =
     (if custom_fields = [] then None
      else (case build_dynamic_prompt custom_fields of
              ((all_fields, field_descriptions, instructions), msgs) \<Rightarrow>
                Some (prompt_text field_descriptions instructions resume_text)))"

section \<open>Parsing one resume\<close>

definition parse_response :: "env \<Rightarrow> string \<Rightarrow> json \<times> message list" where
  \<comment> \<open>lines 87 to 98: clean the response text and decode it; any exception is reported
      and \<open>None\<close> is returned\<close>
  "parse_response E response_text =
     (case json_loads E (clean_json_response response_text) of
        Inl e \<Rightarrow> (JNull, [(Error, ''Error parsing resume with Gemma: '' @ exn_text e)])
      | Inr v \<Rightarrow> (v, []))"

definition parse_resume_with_gemma :: "env \<Rightarrow> nat \<Rightarrow> string \<Rightarrow> field_definition list \<Rightarrow> json \<times> message list" where
  "parse_resume_with_gemma E i resume_text custom_fields =
     (case resume_prompt custom_fields resume_text of
        None \<Rightarrow> (JNull, [])
      | Some prompt \<Rightarrow>
          (case generate_content E i prompt of
             Inl e \<Rightarrow> (JNull, [(Error, ''Error parsing resume with Gemma: '' @ exn_text e)])
           | Inr response_text \<Rightarrow> parse_response E response_text))"

section \<open>The batch processor\<close>

definition annotate :: "py_dict \<Rightarrow> string \<Rightarrow> string \<Rightarrow> py_dict" where
  \<comment> \<open>lines 130 and 131: two item assignments on the parsed dictionary\<close>
  "annotate parsed_data fname stamp =
     AList.update ''processed_date'' (JStr stamp) (AList.update ''file_name'' (JStr fname) parsed_data)"

definition file_extension :: "upload \<Rightarrow> string" where
  \<comment> \<open>\<open>uploaded_file.name.lower().split('.')[-1]\<close>\<close>
  "file_extension uploaded_file = last (split_on CHR ''.'' (py_lower (name uploaded_file)))"

definition extract_text :: "env \<Rightarrow> upload \<Rightarrow> (string option \<times> message list) option" where
  \<comment> \<open>lines 117 to 123: the extractor chosen by the extension, \<open>None\<close> for an unsupported one\<close>
  "extract_text E uploaded_file =
     (if file_extension uploaded_file = ''pdf'' then Some (extract_text_from_pdf E uploaded_file)
      else if file_extension uploaded_file \<in> set [''docx'', ''doc''] then Some (extract_text_from_docx E uploaded_file)
      else None)"

text \<open>
  One pass of the loop of \<open>process_uploaded_files\<close> (lines 112 to 135) for the document at
  position \<open>i\<close>: the exception that leaves the function, or the record to append if there is
  one, and the messages shown. The progress bar and the half-second pause are not modelled.
  \<open>if resume_text:\<close> is false for \<open>None\<close> and for the empty string; the item assignment of
  line 130 is outside every \<open>try\<close>.
\<close>

definition process_file :: "env \<Rightarrow> field_definition list \<Rightarrow> nat \<Rightarrow> upload \<Rightarrow> (exn + py_dict option) \<times> message list" where
  "process_file E custom_fields i uploaded_file =
     (let status = [(Status, ''Processing '' @ name uploaded_file @ ''...'')]
      in case extract_text E uploaded_file of
           None \<Rightarrow> (Inr None, status @ [(Warning, ''Unsupported file type: '' @ name uploaded_file)])
         | Some (resume_text, m1) \<Rightarrow>
             (case resume_text of
                None \<Rightarrow> (Inr None, status @ m1)
              | Some t \<Rightarrow>
                  if t = [] then (Inr None, status @ m1)
                  else (case parse_resume_with_gemma E i t custom_fields of
                          (parsed_data, m2) \<Rightarrow>
                            if truthy parsed_data then
                              (case parsed_data of
                                 JObj d \<Rightarrow>
                                   (Inr (Some (annotate d (name uploaded_file) (strftime (now E i)))),
                                    status @ m1 @ m2 @ [(Success, ''Processed: '' @ name uploaded_file)])
                               | _ \<Rightarrow> (Inl (item_assignment_error parsed_data), status @ m1 @ m2))
                            else (Inr None, status @ m1 @ m2 @ [(Error, ''Failed to process: '' @ name uploaded_file)]))))"

fun process_loop :: "env \<Rightarrow> field_definition list \<Rightarrow> nat \<Rightarrow> upload list \<Rightarrow> py_dict list \<Rightarrow> message list
    \<Rightarrow> (exn + py_dict list) \<times> message list" where
  "process_loop E custom_fields i [] results shown = (Inr results, shown @ [(Status, ''Processing complete!'')])"
| "process_loop E custom_fields i (uploaded_file # files) results shown =
     (case process_file E custom_fields i uploaded_file of
        (Inl e, m) \<Rightarrow> (Inl e, shown @ m)
      | (Inr None, m) \<Rightarrow> process_loop E custom_fields (Suc i) files results (shown @ m)
      | (Inr (Some r), m) \<Rightarrow> process_loop E custom_fields (Suc i) files (results @ [r]) (shown @ m))"

definition process_uploaded_files :: "env \<Rightarrow> upload list \<Rightarrow> field_definition list \<Rightarrow> (exn + py_dict list) \<times> message list" where
  "process_uploaded_files E uploaded_files custom_fields =
     (if custom_fields = [] then (Inr [], [(Error, ''Please add fields in the sidebar before processing.'')])
      else process_loop E custom_fields 0 uploaded_files [] [])"

section \<open>The displayed table\<close>

text \<open>
  Lines 356 to 384 of \<open>main\<close>. Of a pandas frame only the column labels are modelled.
  \<^item> \<open>pd.DataFrame(records)\<close> has one column per key, in the order in which the keys are
    first met;
  \<^item> \<open>df.rename(columns=column_mapping)\<close> replaces each label that is a key of the mapping;
  \<^item> \<open>display_df[labels]\<close> takes, for each requested label in turn, every column of the
    frame that carries this label.
  The table is built only when \<open>processed_data\<close> is not empty.
\<close>

fun add_columns :: "string list \<Rightarrow> string list \<Rightarrow> string list" where
  "add_columns cols [] = cols"
| "add_columns cols (k # ks) = add_columns (if k \<in> set cols then cols else cols @ [k]) ks"

definition DataFrame_columns :: "py_dict list \<Rightarrow> string list" where
  "DataFrame_columns processed_data = fold (\<lambda>r cols. add_columns cols (map fst r)) processed_data []"

definition column_mapping :: "field_definition list \<Rightarrow> (string \<times> string) list" where
  \<comment> \<open>lines 364 to 370: the schema's entries first, the two meta columns assigned last\<close>
  "column_mapping custom_fields =
     AList.update ''processed_date'' ''Processed Date''
       (AList.update ''file_name'' ''File Name''
          (fold (\<lambda>f m. AList.update (field_name f) (column_name f) m) custom_fields []))"

definition display_label :: "(string \<times> string) list \<Rightarrow> string \<Rightarrow> string" where
  "display_label mapping col = (case map_of mapping col of Some l \<Rightarrow> l | None \<Rightarrow> col)"

definition rename_columns :: "(string \<times> string) list \<Rightarrow> string list \<Rightarrow> string list" where
  "rename_columns mapping cols = map (display_label mapping) cols"

definition display_columns :: "py_dict list \<Rightarrow> field_definition list \<Rightarrow> string list" where
  \<comment> \<open>\<open>display_df.columns\<close> after line 373\<close>
  "display_columns processed_data custom_fields =
     rename_columns (column_mapping custom_fields) (DataFrame_columns processed_data)"

fun column_order_loop :: "field_definition list \<Rightarrow> string list \<Rightarrow> string list \<Rightarrow> string list" where
  \<comment> \<open>lines 377 to 379\<close>
  "column_order_loop [] dcols column_order = column_order"
| "column_order_loop (f # fs) dcols column_order =
     column_order_loop fs dcols
       (if column_name f \<in> set dcols then column_order @ [column_name f] else column_order)"

definition existing_columns :: "field_definition list \<Rightarrow> string list \<Rightarrow> string list" where
  \<comment> \<open>lines 376 to 383\<close>
  "existing_columns custom_fields dcols =
     (let column_order = column_order_loop custom_fields dcols [''File Name''] @ [''Processed Date'']
      in filter (\<lambda>col. col \<in> set dcols) column_order)"

definition select_columns :: "string list \<Rightarrow> string list \<Rightarrow> string list" where
  "select_columns dcols labels = concat (map (\<lambda>l. filter (\<lambda>c. c = l) dcols) labels)"

definition table_columns :: "py_dict list \<Rightarrow> field_definition list \<Rightarrow> string list option" where
  \<comment> \<open>the column labels of \<open>display_df\<close> after line 384, \<open>None\<close> when no table is built\<close>
  "table_columns processed_data custom_fields =
     (if processed_data = [] then None
      else (let dcols = display_columns processed_data custom_fields
            in Some (select_columns dcols (existing_columns custom_fields dcols))))"

text \<open>
  The order the specification states, for comparison: \<open>File Name\<close>, then the
  \<open>column_name\<close> of every field of the schema, in schema order, whose \<open>field_name\<close> is a
  key of at least one record, then \<open>Processed Date\<close>.
\<close>

definition claimed_column_order :: "py_dict list \<Rightarrow> field_definition list \<Rightarrow> string list" where
  "claimed_column_order processed_data custom_fields =
     ''File Name'' #
     map column_name
       (filter (\<lambda>f. field_name f \<in> set (concat (map (map fst) processed_data))) custom_fields) @
     [''Processed Date'']"

section \<open>A test environment\<close>

text \<open>
  Concrete runs below need concrete libraries. \<open>json.loads\<close> skips the JSON whitespace
  (space, tab, line feed, carriage return) before and after the document; \<open>stub_loads\<close>
  is a decoder that does the same and knows the texts of a table. \<open>demo_env\<close> is an
  environment whose PDF reader finds the given pages in every file, whose DOCX converter
  rejects every file, whose service answers the \<open>i\<close>-th document with the \<open>i\<close>-th reply
  (and fails when the replies run out), and whose clock shows 2026-11-04 09:30 and \<open>i\<close>
  seconds.
\<close>

definition json_ws :: "char \<Rightarrow> bool" where
  "json_ws c = (c \<in> set [CHR 0x20, CHR 0x09, CHR 0x0A, CHR 0x0D])"

definition json_strip :: "string \<Rightarrow> string" where
  "json_strip s = rev (dropWhile json_ws (rev (dropWhile json_ws s)))"

definition stub_loads :: "(string \<times> json) list \<Rightarrow> string \<Rightarrow> exn + json" where
  "stub_loads table s =
     (case map_of table (json_strip s) of
        Some v \<Rightarrow> Inr v
      | None \<Rightarrow> Inl (LibraryError ''Expecting value''))"

definition demo_env :: "(exn + string) list \<Rightarrow> string list \<Rightarrow> (string \<times> json) list \<Rightarrow> env" where
  "demo_env pages replies table =
     \<lparr>pdf_reader = (\<lambda>bytes. Inr pages),
      docx_process = (\<lambda>bytes. Inl (LibraryError ''File is not a zip file'')),
      generate_content = (\<lambda>i prompt. if i < length replies then Inr (replies ! i)
                                        else Inl (LibraryError ''429 Resource has been exhausted'')),
      json_loads = stub_loads table,
      now = (\<lambda>i. \<lparr>year = 2026, month = 11, day = 4, hour = 9, minute = 30, second = i,
                      microsecond = 0\<rparr>)\<rparr>"

definition names_file :: "upload \<Rightarrow> message \<Rightarrow> bool" where
  \<comment> \<open>a warning or an error whose text contains the file's name\<close>
  "names_file f msg = (fst msg \<in> {Warning, Error} \<and> (\<exists>pre post. snd msg = pre @ name f @ post))"

lemmas py_string_defs = py_strip_def py_isspace_def py_lower_def py_lower_char_def
  upper_letters_def lower_letters_def startswith_def py_slice_def

lemmas demo_defs = demo_env_def stub_loads_def json_strip_def json_ws_def

lemmas batch_defs = process_uploaded_files_def process_file_def extract_text_def file_extension_def
  extract_text_from_pdf_def extract_text_from_docx_def parse_resume_with_gemma_def parse_response_def
  resume_prompt_def build_dynamic_prompt_def annotate_def clean_json_response_def
  strftime_def pad2_def pad4_def digit_def

lemmas table_defs = table_columns_def display_columns_def DataFrame_columns_def rename_columns_def
  display_label_def column_mapping_def existing_columns_def select_columns_def

section \<open>The schema invariant\<close>

text \<open>
  C3. The add-field form is meant to keep the field names unique up to letter case: a field
  is appended only if no stored field has the same name up to letter case. The form
  lower-cases only the submitted name and compares it with the stored names as they are.
  Starting from the empty schema, the name \<open>Name\<close> is accepted, and then the name
  \<open>name\<close> is accepted as well: the schema holds both and is no longer unique up to
  letter case.
\<close>

theorem add_field_breaks_unique_ci:
  "fst (add_field True ''name'' ''Given name'' ''Name 2''
          (fst (add_field True ''Name'' ''Full name'' ''Full Name'' [])))
     = [\<lparr>field_name = ''Name'', description = ''Full name'', column_name = ''Full Name''\<rparr>,
        \<lparr>field_name = ''name'', description = ''Given name'', column_name = ''Name 2''\<rparr>]
   \<and> unique_ci (fst (add_field True ''Name'' ''Full name'' ''Full Name'' []))
   \<and> \<not> unique_ci (fst (add_field True ''name'' ''Given name'' ''Name 2''
          (fst (add_field True ''Name'' ''Full name'' ''Full Name'' []))))"
  by (simp add: add_field_def unique_ci_def py_string_defs)

section \<open>Fence stripping\<close>

text \<open>
  C4. The response parser is meant to remove exactly the fence delimiters and never a
  payload character, whether or not a closing fence exists. A response that opens with the
  tagged fence and has no closing fence loses its last three payload characters: what is
  handed to the decoder is cut off in the middle of the value.
\<close>

theorem clean_json_response_cuts_payload:
  \<open>clean_json_response ''```json\<newline>{"full_name": "Ann Lee"}'' = ''\<newline>{"full_name": "Ann Le''\<close>
  by (simp add: clean_json_response_def py_string_defs)

lemma json_ws_isspace: "json_ws c \<Longrightarrow> py_isspace c"
  by (auto simp: json_ws_def py_isspace_def)

lemma strip_pad:
  assumes "list_all P u" "list_all P v"
  shows "rev (dropWhile P (rev (dropWhile P (u @ s @ v)))) = rev (dropWhile P (rev (dropWhile P s)))"
proof -
  have u: "dropWhile P (u @ s @ v) = dropWhile P (s @ v)"
    by (rule dropWhile_append2) (use assms(1) in \<open>auto simp: list_all_iff\<close>)
  show ?thesis
  proof (cases "list_all P s")
    case True
    then have "\<forall>x\<in>set (s @ v). P x" "\<forall>x\<in>set s. P x"
      using assms(2) by (auto simp: list_all_iff)
    then have e: "dropWhile P (s @ v) = []" "dropWhile P s = []"
      unfolding dropWhile_eq_Nil_conv by blast+
    show ?thesis unfolding u e by simp
  next
    case False
    then obtain x where "x \<in> set s" "\<not> P x" by (auto simp: list_all_iff)
    then have "dropWhile P (s @ v) = dropWhile P s @ v"
      by (rule dropWhile_append1)
    moreover have "dropWhile P (rev v @ rev (dropWhile P s)) = dropWhile P (rev (dropWhile P s))"
      by (rule dropWhile_append2) (use assms(2) in \<open>auto simp: list_all_iff\<close>)
    ultimately show ?thesis using u by simp
  qed
qed

lemma strip_core:
  assumes "\<not> P (hd s)" "\<not> P (last s)" "s \<noteq> []"
  shows "rev (dropWhile P (rev (dropWhile P s))) = s"
proof -
  have "dropWhile P s = s" using assms(1,3) by (cases s) auto
  moreover have "dropWhile P (rev s) = rev s"
    using assms(2,3) by (cases "rev s") (auto simp: last_rev[symmetric] hd_rev)
  ultimately show ?thesis by simp
qed

lemma py_strip_pad:
  "list_all py_isspace a \<Longrightarrow> list_all py_isspace b \<Longrightarrow> py_strip (a @ s @ b) = py_strip s"
  unfolding py_strip_def by (rule strip_pad)

lemma json_strip_pad:
  "list_all json_ws a \<Longrightarrow> list_all json_ws b \<Longrightarrow> json_strip (a @ s @ b) = json_strip s"
  unfolding json_strip_def by (rule strip_pad)

lemma py_strip_core:
  "\<not> py_isspace (hd s) \<Longrightarrow> \<not> py_isspace (last s) \<Longrightarrow> s \<noteq> [] \<Longrightarrow> py_strip s = s"
  unfolding py_strip_def by (rule strip_core)

lemma stub_loads_pad:
  "list_all json_ws u \<Longrightarrow> list_all json_ws v \<Longrightarrow> stub_loads table (u @ s @ v) = stub_loads table s"
  by (simp add: stub_loads_def json_strip_pad)

text \<open>A fenced object, with whitespace around the fences, is cleaned to what stands between them.\<close>

lemma clean_fenced:
  assumes "fence = ''```json'' \<or> fence = ''```''"
    and "list_all py_isspace a" "list_all py_isspace b" "list_all json_ws u"
  shows "clean_json_response (a @ fence @ u @ CHR ''{'' # body @ CHR ''}'' # v @ ''```'' @ b)
           = u @ CHR ''{'' # body @ CHR ''}'' # v"
proof -
  let ?core = "fence @ u @ CHR ''{'' # body @ CHR ''}'' # v @ ''```''"
  have hd: "hd ?core = CHR ''`''" using assms(1) by auto
  have "a @ fence @ u @ CHR ''{'' # body @ CHR ''}'' # v @ ''```'' @ b = a @ ?core @ b" by simp
  then have "py_strip (a @ fence @ u @ CHR ''{'' # body @ CHR ''}'' # v @ ''```'' @ b) = py_strip ?core"
    using py_strip_pad[OF assms(2,3)] by metis
  also have "\<dots> = ?core"
    using hd by (intro py_strip_core) (auto simp: py_isspace_def)
  finally have s: "py_strip (a @ fence @ u @ CHR ''{'' # body @ CHR ''}'' # v @ ''```'' @ b) = ?core" .
  have nj: "\<not> startswith (''```'' @ u @ CHR ''{'' # body @ CHR ''}'' # v @ ''```'') ''```json''"
  proof (cases u)
    case Nil
    then show ?thesis by (simp add: startswith_def)
  next
    case (Cons c cs)
    then have "json_ws c" using assms(4) by simp
    then have "c \<noteq> CHR ''j''" by (auto simp: json_ws_def)
    then show ?thesis using Cons by (simp add: startswith_def)
  qed
  show ?thesis
  proof (cases "fence = ''```json''")
    case True
    then show ?thesis unfolding clean_json_response_def s
      by (simp add: startswith_def py_slice_def)
  next
    case False
    then have f: "fence = ''```''" using assms(1) by simp
    show ?thesis unfolding clean_json_response_def s using nj unfolding f
      by (simp add: startswith_def py_slice_def)
  qed
qed

text \<open>An object with JSON whitespace around it is cleaned to the object alone.\<close>

lemma clean_object:
  assumes "list_all json_ws u" "list_all json_ws v"
  shows "clean_json_response (u @ CHR ''{'' # body @ CHR ''}'' # v) = CHR ''{'' # body @ ''}''"
proof -
  let ?obj = "CHR ''{'' # body @ ''}''"
  have "u @ CHR ''{'' # body @ CHR ''}'' # v = u @ ?obj @ v" by simp
  moreover have "list_all py_isspace u" "list_all py_isspace v"
    using assms by (auto simp: list_all_iff json_ws_isspace)
  ultimately have "py_strip (u @ CHR ''{'' # body @ CHR ''}'' # v) = py_strip ?obj"
    using py_strip_pad by metis
  also have "\<dots> = ?obj" by (intro py_strip_core) (auto simp: py_isspace_def)
  finally show ?thesis by (simp add: clean_json_response_def startswith_def)
qed

text \<open>
  C5. Parsing is idempotent on the stripped form of a fence-wrapped object. The raw text is
  an object \<open>{...}\<close> between a leading fence (tagged or plain) and a trailing fence, with
  JSON whitespace (such as line feeds) allowed between the fences and the object and any
  whitespace allowed around the whole. Stripping is the parser's own fence removal,
  \<open>clean_json_response\<close>; the parse result is the value \<open>parse_response\<close> returns. The
  decoder is any function that, like \<open>json.loads\<close>, decodes a text with JSON whitespace
  around it to the same value as the text alone. Then parsing the stripped text and parsing
  the raw text return the same value.
\<close>

theorem parse_strip_idempotent:
  assumes dec: "\<And>u s v val. list_all json_ws u \<Longrightarrow> list_all json_ws v \<Longrightarrow>
                  (json_loads E (u @ s @ v) = Inr val) = (json_loads E s = Inr val)"
    and fence: "fence = ''```json'' \<or> fence = ''```''"
    and inner: "list_all json_ws u" "list_all json_ws v"
    and outer: "list_all py_isspace a" "list_all py_isspace b"
  shows "fst (parse_response E
                (clean_json_response (a @ fence @ u @ CHR ''{'' # body @ CHR ''}'' # v @ ''```'' @ b)))
       = fst (parse_response E (a @ fence @ u @ CHR ''{'' # body @ CHR ''}'' # v @ ''```'' @ b))"
proof -
  let ?obj = "CHR ''{'' # body @ ''}''"
  have x: "clean_json_response (a @ fence @ u @ CHR ''{'' # body @ CHR ''}'' # v @ ''```'' @ b) = u @ ?obj @ v"
    using clean_fenced[OF fence outer inner(1)] by simp
  have y: "clean_json_response (u @ ?obj @ v) = ?obj"
    using clean_object[OF inner] by simp
  have d: "(json_loads E (u @ ?obj @ v) = Inr val) = (json_loads E ?obj = Inr val)" for val
    using dec[OF inner] .
  have "(case json_loads E (u @ ?obj @ v) of Inl e \<Rightarrow> JNull | Inr w \<Rightarrow> w)
      = (case json_loads E ?obj of Inl e \<Rightarrow> JNull | Inr w \<Rightarrow> w)"
  proof (cases "json_loads E ?obj")
    case (Inr w)
    then have "json_loads E (u @ ?obj @ v) = Inr w" using d by simp
    with Inr show ?thesis by simp
  next
    case (Inl e)
    then have "\<And>w. json_loads E (u @ ?obj @ v) \<noteq> Inr w" using d by simp
    then obtain e' where "json_loads E (u @ ?obj @ v) = Inl e'"
      by (cases "json_loads E (u @ ?obj @ v)") auto
    with Inl show ?thesis by simp
  qed
  then have "fst (parse_response E (u @ ?obj @ v))
           = fst (parse_response E (a @ fence @ u @ ?obj @ v @ ''```'' @ b))"
    unfolding parse_response_def y using x by (simp split: sum.splits)
  then show ?thesis using x by simp
qed

text \<open>
  An instance: the tagged fence, a line feed, the object of the sentinel scenario, a line
  feed, the closing fence. Both parses return the object.
\<close>

theorem parse_strip_idempotent_witness:
  \<open>fst (parse_response
          (demo_env [] [] [(''{"full_name": "Not Found"}'', JObj [(''full_name'', JStr ''Not Found'')])])
          (clean_json_response ''```json\<newline>{"full_name": "Not Found"}\<newline>```''))
   = fst (parse_response
          (demo_env [] [] [(''{"full_name": "Not Found"}'', JObj [(''full_name'', JStr ''Not Found'')])])
          ''```json\<newline>{"full_name": "Not Found"}\<newline>```'')
   \<and> fst (parse_response
          (demo_env [] [] [(''{"full_name": "Not Found"}'', JObj [(''full_name'', JStr ''Not Found'')])])
          ''```json\<newline>{"full_name": "Not Found"}\<newline>```'')
     = JObj [(''full_name'', JStr ''Not Found'')]\<close>
proof -
  let ?E = \<open>demo_env [] [] [(''{"full_name": "Not Found"}'', JObj [(''full_name'', JStr ''Not Found'')])]\<close>
  have dec: "(json_loads ?E (u @ s @ v) = Inr val) = (json_loads ?E s = Inr val)"
    if "list_all json_ws u" "list_all json_ws v" for u s v val
    using that by (simp add: demo_env_def stub_loads_pad)
  have \<open>fst (parse_response ?E (clean_json_response
            ([] @ ''```json'' @ ''\<newline>'' @ CHR ''{'' # ''"full_name": "Not Found"'' @ CHR ''}'' # ''\<newline>'' @ ''```'' @ [])))
      = fst (parse_response ?E
            ([] @ ''```json'' @ ''\<newline>'' @ CHR ''{'' # ''"full_name": "Not Found"'' @ CHR ''}'' # ''\<newline>'' @ ''```'' @ []))\<close>
    by (rule parse_strip_idempotent[OF dec]) (simp_all add: json_ws_def)
  moreover have \<open>fst (parse_response ?E ''```json\<newline>{"full_name": "Not Found"}\<newline>```'')
      = JObj [(''full_name'', JStr ''Not Found'')]\<close>
    by (simp add: parse_response_def clean_json_response_def py_string_defs demo_defs)
  ultimately show ?thesis by simp
qed

section \<open>PDF text extraction\<close>

lemma pages_loop_ok:
  "\<forall>p\<in>set pages. \<not> isl p \<Longrightarrow> pages_loop pages acc = Inr (acc @ concat (map projr pages))"
  by (induction pages arbitrary: acc) (auto split: sum.splits)

lemma pages_loop_fail: "\<exists>p\<in>set pages. isl p \<Longrightarrow> isl (pages_loop pages acc)"
  by (induction pages arbitrary: acc) (auto split: sum.splits)

text \<open>
  C6. The text extracted from a PDF is the concatenation of the texts of all its pages, in
  page order, with nothing put between them; if the text of any single page cannot be
  extracted (or the reader cannot open the file), the extraction fails for the whole
  document: it returns \<open>None\<close>, never the text of the other pages.
\<close>

theorem pdf_text_all_or_nothing:
  "fst (extract_text_from_pdf E f) =
     (case pdf_reader E (payload f) of
        Inl e \<Rightarrow> None
      | Inr pages \<Rightarrow>
          if \<forall>p\<in>set pages. \<not> isl p then Some (concat (map projr pages)) else None)"
proof (cases "pdf_reader E (payload f)")
  case (Inl e)
  then show ?thesis by (simp add: extract_text_from_pdf_def)
next
  case (Inr pages)
  show ?thesis
  proof (cases "\<forall>p\<in>set pages. \<not> isl p")
    case True
    then show ?thesis
      using Inr pages_loop_ok[of pages "[]"] by (simp add: extract_text_from_pdf_def)
  next
    case False
    then have "isl (pages_loop pages [])"
      using pages_loop_fail[of pages "[]"] by blast
    with False Inr show ?thesis
      by (auto simp: extract_text_from_pdf_def split: sum.splits)
  qed
qed

text \<open>
  An instance: two readable pages give their texts joined; with an unreadable page between
  them nothing is returned.
\<close>

theorem pdf_text_all_or_nothing_witness:
  "fst (extract_text_from_pdf (demo_env [Inr ''Ann '', Inr ''Lee''] [] [])
          \<lparr>name = ''ann.pdf'', payload = []\<rparr>)
     = Some ''Ann Lee''
   \<and> fst (extract_text_from_pdf
            (demo_env [Inr ''Ann '', Inl (LibraryError ''broken stream''), Inr ''Lee''] [] [])
            \<lparr>name = ''ann.pdf'', payload = []\<rparr>)
     = None"
  using pdf_text_all_or_nothing[of "demo_env [Inr ''Ann '', Inr ''Lee''] [] []"
          "\<lparr>name = ''ann.pdf'', payload = []\<rparr>"]
    pdf_text_all_or_nothing[of
          "demo_env [Inr ''Ann '', Inl (LibraryError ''broken stream''), Inr ''Lee''] [] []"
          "\<lparr>name = ''ann.pdf'', payload = []\<rparr>"]
  by (simp add: demo_env_def)

section \<open>The prompt's content\<close>




section \<open>Failures inside a batch\<close>

text \<open>
  The four kinds of failure the loop recovers from: an unsupported extension, an unreadable
  document, a failed service call and a response the decoder rejects. In each case the
  pass ends without a record and without an exception, and the loop goes on with the next
  document and the results it had.
\<close>

lemma recovered_failures:
  assumes "extract_text E f = None
     \<or> (\<exists>m. extract_text E f = Some (None, m))
     \<or> (\<exists>t m p e. extract_text E f = Some (Some t, m) \<and> resume_prompt S t = Some p
            \<and> generate_content E i p = Inl e)
     \<or> (\<exists>t m p response_text e. extract_text E f = Some (Some t, m) \<and> resume_prompt S t = Some p
            \<and> generate_content E i p = Inr response_text
            \<and> json_loads E (clean_json_response response_text) = Inl e)"
  shows "fst (process_file E S i f) = Inr None"
  using assms
  by (auto simp: process_file_def Let_def parse_resume_with_gemma_def parse_response_def)

lemma skipped_document_continues:
  assumes "fst (process_file E S i f) = Inr None"
  shows "process_loop E S i (f # fs) results shown
           = process_loop E S (Suc i) fs results (shown @ snd (process_file E S i f))"
  using assms by (cases "process_file E S i f") auto

text \<open>
  C1. No failure of a single document may abort the batch or let an exception leave the
  batch processor. The loop misses one case: a response that decodes to a non-empty value
  that is not a dictionary. Here the service answers the first of two documents with a JSON
  array holding the object instead of the object itself. \<open>json.loads\<close> succeeds, the value
  is truthy, and the item assignment of line 130, which no \<open>try\<close> encloses, raises
  \<open>TypeError\<close>: the exception leaves \<open>process_uploaded_files\<close>, the second document is
  never started and no result is returned.
\<close>

theorem batch_aborts_on_json_array:
  \<open>process_uploaded_files
     (demo_env [Inr ''Ann Lee''] [''[{"full_name": "Ann Lee"}]'', ''{"full_name": "Bo Chen"}'']
        [(''[{"full_name": "Ann Lee"}]'', JArr [JObj [(''full_name'', JStr ''Ann Lee'')]]),
         (''{"full_name": "Bo Chen"}'', JObj [(''full_name'', JStr ''Bo Chen'')])])
     [\<lparr>name = ''ann.pdf'', payload = []\<rparr>, \<lparr>name = ''bo.pdf'', payload = []\<rparr>]
     [\<lparr>field_name = ''full_name'', description = ''Full name'', column_name = ''Full Name''\<rparr>]
   = (Inl (TypeError ''list indices must be integers or slices, not str''),
      [(Status, ''Processing ann.pdf...'')])\<close>
  by (simp add: batch_defs py_string_defs demo_defs)

section \<open>Messages for excluded documents\<close>

lemma names_fileI: "lvl \<in> {Warning, Error} \<Longrightarrow> names_file f (lvl, pre @ name f @ post)"
  unfolding names_file_def by auto

lemma extract_failure_reported:
  assumes "extract_text E f = Some (None, m)"
  shows "\<exists>msg\<in>set m. names_file f msg"
proof -
  from assms have "extract_text_from_pdf E f = (None, m) \<or> extract_text_from_docx E f = (None, m)"
    by (auto simp: extract_text_def split: if_splits)
  then have "(\<exists>e. m = [(Error, ''Error reading PDF '' @ name f @ '': '' @ exn_text e)])
           \<or> (\<exists>e. m = [(Error, ''Error reading DOCX '' @ name f @ '': '' @ exn_text e)])"
    by (auto simp: extract_text_from_pdf_def extract_text_from_docx_def split: sum.splits)
  then show ?thesis
    using names_fileI[of Error f "''Error reading PDF ''" "'': '' @ exn_text e" for e]
      names_fileI[of Error f "''Error reading DOCX ''" "'': '' @ exn_text e" for e]
    by auto
qed

text \<open>
  A document that ends without a record is named in a warning or an error, unless its
  extracted text is empty.
\<close>

lemma excluded_document_is_reported:
  assumes "fst (process_file E S i f) = Inr None"
    and "\<And>m. extract_text E f \<noteq> Some (Some [], m)"
  shows "\<exists>msg\<in>set (snd (process_file E S i f)). names_file f msg"
proof (cases "extract_text E f")
  case None
  then show ?thesis
    using names_fileI[of Warning f "''Unsupported file type: ''" "[]"]
    by (simp add: process_file_def)
next
  case (Some x)
  obtain rt m1 where x: "x = (rt, m1)" by (cases x)
  show ?thesis
  proof (cases rt)
    case None
    with Some x extract_failure_reported[of E f m1] show ?thesis
      by (auto simp: process_file_def)
  next
    case (Some t)
    with \<open>extract_text E f = Some x\<close> x assms(2) have t: "t \<noteq> []" by auto
    obtain v m2 where p: "parse_resume_with_gemma E i t S = (v, m2)"
      by (cases "parse_resume_with_gemma E i t S")
    have "\<not> truthy v"
      using assms(1) \<open>extract_text E f = Some x\<close> x Some t p
      by (cases v) (auto simp: process_file_def Let_def split: if_splits)
    then show ?thesis
      using \<open>extract_text E f = Some x\<close> x Some t p
        names_fileI[of Error f "''Failed to process: ''" "[]"]
      by (simp add: process_file_def)
  qed
qed

text \<open>
  C9. Every document left out of the results, a document whose extraction yields empty text
  included, must be reported in a message that names it. When a PDF is read without error
  and its pages carry no text (a scanned document), \<open>if resume_text:\<close> is false and the
  branch has no \<open>else\<close>: the document is left out and the only texts shown are the status
  line every document gets and the closing status. The sibling test \<open>if parsed_data:\<close> has
  the \<open>else\<close> that reports the failure.
\<close>

theorem empty_text_is_skipped_silently:
  \<open>process_uploaded_files
     (demo_env [Inr [], Inr []] [''{"full_name": "Ann Lee"}'']
        [(''{"full_name": "Ann Lee"}'', JObj [(''full_name'', JStr ''Ann Lee'')])])
     [\<lparr>name = ''scan.pdf'', payload = []\<rparr>]
     [\<lparr>field_name = ''full_name'', description = ''Full name'', column_name = ''Full Name''\<rparr>]
   = (Inr [], [(Status, ''Processing scan.pdf...''), (Status, ''Processing complete!'')])\<close>
  by (simp add: batch_defs py_string_defs demo_defs)

section \<open>The records of a batch\<close>

lemma map_of_annotate:
  "map_of (annotate d fname stamp)
     = (map_of d)(''file_name'' \<mapsto> JStr fname, ''processed_date'' \<mapsto> JStr stamp)"
  by (simp add: annotate_def update_conv')







section \<open>The annotation of a record\<close>

lemma of_char_digit_less: "k < 10 \<Longrightarrow> of_char (''0123456789'' ! k) = (48 + k :: nat)"
proof -
  assume k: "k < 10"
  have "list_all (\<lambda>k. of_char (''0123456789'' ! k) = (48 + k :: nat)) [0..<10]"
    by code_simp
  then show ?thesis using k by (simp add: list_all_iff)
qed

lemma of_char_digit: "of_char (digit n) = (48 + n mod 10 :: nat)"
  unfolding digit_def by (rule of_char_digit_less) simp

text \<open>
  The timestamp, character by character: four digits of the year, two each of month, day,
  hour, minute and second, separated by \<open>-\<close>, a space and \<open>:\<close>; nothing below the second.
\<close>

lemma strftime_chars:
  "map of_char (strftime dt) =
     [48 + year dt div 1000 mod 10, 48 + year dt div 100 mod 10, 48 + year dt div 10 mod 10,
      48 + year dt mod 10, 45,
      48 + month dt div 10 mod 10, 48 + month dt mod 10, 45,
      48 + day dt div 10 mod 10, 48 + day dt mod 10, 32,
      48 + hour dt div 10 mod 10, 48 + hour dt mod 10, 58,
      48 + minute dt div 10 mod 10, 48 + minute dt mod 10, 58,
      48 + second dt div 10 mod 10, 48 + second dt mod 10 :: nat]"
  by (simp add: strftime_def pad2_def pad4_def of_char_digit)

text \<open>
  C10, as the code has it. When the parse of a document returns a non-empty dictionary
  \<open>d\<close>, the loop appends one record and goes on; the record maps \<open>file_name\<close> to the name
  of the uploaded file and \<open>processed_date\<close> to the clock's reading written as
  \<open>YYYY-MM-DD HH:MM:SS\<close>, whatever \<open>d\<close> held under these two keys, and maps every other
  key as \<open>d\<close> does. (An empty dictionary does not pass \<open>if parsed_data:\<close>.)
\<close>

theorem annotation_frame:
  assumes "extract_text E f = Some (Some t, m1)" and "t \<noteq> []"
    and "parse_resume_with_gemma E i t S = (JObj d, m2)" and "d \<noteq> []"
  shows "process_loop E S i (f # fs) results shown
           = process_loop E S (Suc i) fs (results @ [annotate d (name f) (strftime (now E i))])
               (shown @ snd (process_file E S i f))
       \<and> map_of (annotate d (name f) (strftime (now E i)))
           = (map_of d)(''file_name'' \<mapsto> JStr (name f),
                        ''processed_date'' \<mapsto> JStr (strftime (now E i)))
       \<and> map of_char (strftime (now E i)) =
           [48 + year (now E i) div 1000 mod 10, 48 + year (now E i) div 100 mod 10,
            48 + year (now E i) div 10 mod 10, 48 + year (now E i) mod 10, 45,
            48 + month (now E i) div 10 mod 10, 48 + month (now E i) mod 10, 45,
            48 + day (now E i) div 10 mod 10, 48 + day (now E i) mod 10, 32,
            48 + hour (now E i) div 10 mod 10, 48 + hour (now E i) mod 10, 58,
            48 + minute (now E i) div 10 mod 10, 48 + minute (now E i) mod 10, 58,
            48 + second (now E i) div 10 mod 10, 48 + second (now E i) mod 10 :: nat]"
  using assms by (simp add: process_file_def map_of_annotate strftime_chars)

text \<open>
  An instance: the service returns a \<open>file_name\<close> of its own, \<open>cv.docx\<close>, and the clock
  shows a quarter of a second past 06:45:29; the record carries the name of the uploaded
  file, the reading to the second, and \<open>full_name\<close> as returned.
\<close>

theorem annotation_frame_witness:
  \<open>process_loop
      ((demo_env [Inr ''Ann Lee''] [''{"full_name": "Ann Lee", "file_name": "cv.docx"}'']
         [(''{"full_name": "Ann Lee", "file_name": "cv.docx"}'',
           JObj [(''full_name'', JStr ''Ann Lee''), (''file_name'', JStr ''cv.docx'')])])
        \<lparr>now := (\<lambda>i. \<lparr>year = 2027, month = 3, day = 18, hour = 6, minute = 45, second = 29,
                           microsecond = 250000\<rparr>)\<rparr>)
      [\<lparr>field_name = ''full_name'', description = ''Full name'', column_name = ''Full Name''\<rparr>]
      0 [\<lparr>name = ''ann.pdf'', payload = []\<rparr>] [] []
    = (Inr [[(''full_name'', JStr ''Ann Lee''), (''file_name'', JStr ''ann.pdf''),
             (''processed_date'', JStr ''2027-03-18 06:45:29'')]],
       [(Status, ''Processing ann.pdf...''), (Success, ''Processed: ann.pdf''),
        (Status, ''Processing complete!'')])\<close>
proof -
  let ?E = \<open>(demo_env [Inr ''Ann Lee''] [''{"full_name": "Ann Lee", "file_name": "cv.docx"}'']
         [(''{"full_name": "Ann Lee", "file_name": "cv.docx"}'',
           JObj [(''full_name'', JStr ''Ann Lee''), (''file_name'', JStr ''cv.docx'')])])
        \<lparr>now := (\<lambda>i. \<lparr>year = 2027, month = 3, day = 18, hour = 6, minute = 45, second = 29,
                           microsecond = 250000\<rparr>)\<rparr>\<close>
  let ?S = "[\<lparr>field_name = ''full_name'', description = ''Full name'', column_name = ''Full Name''\<rparr>]"
  let ?f = "\<lparr>name = ''ann.pdf'', payload = []\<rparr>"
  have p1: "extract_text ?E ?f = Some (Some ''Ann Lee'', [])"
    by (simp add: batch_defs py_string_defs demo_defs)
  have p2: "''Ann Lee'' \<noteq> []" by simp
  have p3: "parse_resume_with_gemma ?E 0 ''Ann Lee'' ?S
              = (JObj [(''full_name'', JStr ''Ann Lee''), (''file_name'', JStr ''cv.docx'')], [])"
    by (simp add: batch_defs py_string_defs demo_defs)
  have p4: "[(''full_name'', JStr ''Ann Lee''), (''file_name'', JStr ''cv.docx'')] \<noteq> []" by simp
  from annotation_frame[OF p1 p2 p3 p4, of "[]" "[]" "[]"]
  show ?thesis
    by (simp add: batch_defs py_string_defs demo_defs)
qed

text \<open>
  The claim as stated, for every successfully parsed mapping, fails for the empty object:
  the reply \<open>{}\<close> is decoded without error, but the empty dictionary is falsy, so nothing
  is annotated or appended and the document is reported as failed.
\<close>

theorem empty_object_is_not_annotated:
  \<open>parse_resume_with_gemma (demo_env [Inr ''Ann Lee''] [''{}''] [(''{}'', JObj [])]) 0 ''Ann Lee''
      [\<lparr>field_name = ''full_name'', description = ''Full name'', column_name = ''Full Name''\<rparr>]
    = (JObj [], [])
   \<and> process_uploaded_files (demo_env [Inr ''Ann Lee''] [''{}''] [(''{}'', JObj [])])
      [\<lparr>name = ''ann.pdf'', payload = []\<rparr>]
      [\<lparr>field_name = ''full_name'', description = ''Full name'', column_name = ''Full Name''\<rparr>]
    = (Inr [], [(Status, ''Processing ann.pdf...''), (Error, ''Failed to process: ann.pdf''),
                (Status, ''Processing complete!'')])\<close>
  by (simp add: batch_defs py_string_defs demo_defs)

section \<open>The column order of the table\<close>

lemma set_add_columns: "set (add_columns cols ks) = set cols \<union> set ks"
  by (induction ks arbitrary: cols) auto

lemma set_fold_add_columns:
  "set (fold (\<lambda>r cols. add_columns cols (map fst r)) rs init)
     = set init \<union> (\<Union>r\<in>set rs. fst ` set r)"
  by (induction rs arbitrary: init) (auto simp: set_add_columns)

lemma set_DataFrame_columns: "set (DataFrame_columns rs) = (\<Union>r\<in>set rs. fst ` set r)"
  by (simp add: DataFrame_columns_def set_fold_add_columns)

text \<open>The labels of the renamed frame are the display labels of the keys of the records.\<close>

lemma set_display_columns:
  "set (display_columns rs fs) = display_label (column_mapping fs) ` (\<Union>r\<in>set rs. fst ` set r)"
  by (simp add: display_columns_def rename_columns_def set_DataFrame_columns)

lemma display_label_meta:
  "display_label (column_mapping fs) ''file_name'' = ''File Name''"
  "display_label (column_mapping fs) ''processed_date'' = ''Processed Date''"
  by (simp_all add: display_label_def column_mapping_def update_conv')

lemma column_order_loop_eq:
  "column_order_loop fs dcols acc = acc @ filter (\<lambda>c. c \<in> set dcols) (map column_name fs)"
  by (induction fs arbitrary: acc) auto

lemma filter_eq_distinct: "distinct xs \<Longrightarrow> l \<in> set xs \<Longrightarrow> filter (\<lambda>c. c = l) xs = [l]"
  by (induction xs) (auto simp: filter_empty_conv)

lemma select_columns_distinct:
  "distinct dcols \<Longrightarrow> set labels \<subseteq> set dcols \<Longrightarrow> select_columns dcols labels = labels"
  by (induction labels) (auto simp: select_columns_def filter_eq_distinct)

text \<open>
  Where the selection by label returns each requested column once: for a non-empty result
  set whose records carry the two reserved keys, and a schema such that no two columns of
  the renamed frame carry the same label, the columns of the table are \<open>File Name\<close>, the
  labels of the schema that are the label of a column of the frame, in schema order, and
  \<open>Processed Date\<close>.
\<close>

lemma table_columns_order:
  assumes "rs \<noteq> []"
    and "\<forall>r\<in>set rs. ''file_name'' \<in> fst ` set r \<and> ''processed_date'' \<in> fst ` set r"
    and "distinct (display_columns rs fs)"
  shows "table_columns rs fs =
     Some (''File Name'' #
           filter (\<lambda>c. c \<in> set (display_columns rs fs)) (map column_name fs) @
           [''Processed Date''])"
proof -
  obtain r where r: "r \<in> set rs" using assms(1) by (cases rs) auto
  let ?d = "display_columns rs fs"
  have "''file_name'' \<in> (\<Union>r\<in>set rs. fst ` set r)"
       "''processed_date'' \<in> (\<Union>r\<in>set rs. fst ` set r)"
    using r assms(2) by blast+
  then have "display_label (column_mapping fs) ''file_name'' \<in> set ?d"
       "display_label (column_mapping fs) ''processed_date'' \<in> set ?d"
    unfolding set_display_columns by blast+
  then have meta: "''File Name'' \<in> set ?d" "''Processed Date'' \<in> set ?d"
    by (simp_all add: display_label_meta)
  have ex: "existing_columns fs ?d =
      ''File Name'' # filter (\<lambda>c. c \<in> set ?d) (map column_name fs) @ [''Processed Date'']"
    using meta by (simp add: existing_columns_def column_order_loop_eq)
  have "set (existing_columns fs ?d) \<subseteq> set ?d"
    by (auto simp: existing_columns_def)
  then have "select_columns ?d (existing_columns fs ?d) = existing_columns fs ?d"
    using assms(3) by (rule select_columns_distinct[rotated])
  then show ?thesis using assms(1) ex by (simp add: table_columns_def Let_def)
qed

text \<open>
  C2. The table is meant to have the columns \<open>File Name\<close>, then one column per field of
  the schema that occurs in some record, in schema order, then \<open>Processed Date\<close>, for
  every result set and every schema. The code orders and selects the columns by their
  display label. When two fields of the schema share a label (the add-field form checks
  only the field names), both columns of the frame carry it and each request for it returns
  both: with two fields labelled \<open>Email\<close>, both present in the record, the table has four
  \<open>Email\<close> columns where the stated order has two.
\<close>

theorem duplicate_labels_repeat_columns:
  "table_columns
     [[(''work_email'', JStr ''ann@work.example''), (''home_email'', JStr ''ann@home.example''),
       (''file_name'', JStr ''ann.pdf''), (''processed_date'', JStr ''2026-11-04 09:30:00'')]]
     [\<lparr>field_name = ''work_email'', description = ''Work email address'', column_name = ''Email''\<rparr>,
      \<lparr>field_name = ''home_email'', description = ''Private email address'', column_name = ''Email''\<rparr>]
   = Some [''File Name'', ''Email'', ''Email'', ''Email'', ''Email'', ''Processed Date'']
   \<and> claimed_column_order
     [[(''work_email'', JStr ''ann@work.example''), (''home_email'', JStr ''ann@home.example''),
       (''file_name'', JStr ''ann.pdf''), (''processed_date'', JStr ''2026-11-04 09:30:00'')]]
     [\<lparr>field_name = ''work_email'', description = ''Work email address'', column_name = ''Email''\<rparr>,
      \<lparr>field_name = ''home_email'', description = ''Private email address'', column_name = ''Email''\<rparr>]
   = [''File Name'', ''Email'', ''Email'', ''Processed Date'']"
  by (simp add: table_defs claimed_column_order_def)

text \<open>
  With the same schema and a record that holds only the first of the two fields, the
  column of the first field is shown twice: the field that no record holds gets a column.
\<close>

lemma absent_field_gets_column:
  "table_columns
     [[(''work_email'', JStr ''ann@work.example''),
       (''file_name'', JStr ''ann.pdf''), (''processed_date'', JStr ''2026-11-04 09:30:00'')]]
     [\<lparr>field_name = ''work_email'', description = ''Work email address'', column_name = ''Email''\<rparr>,
      \<lparr>field_name = ''home_email'', description = ''Private email address'', column_name = ''Email''\<rparr>]
   = Some [''File Name'', ''Email'', ''Email'', ''Processed Date'']
   \<and> claimed_column_order
     [[(''work_email'', JStr ''ann@work.example''),
       (''file_name'', JStr ''ann.pdf''), (''processed_date'', JStr ''2026-11-04 09:30:00'')]]
     [\<lparr>field_name = ''work_email'', description = ''Work email address'', column_name = ''Email''\<rparr>,
      \<lparr>field_name = ''home_email'', description = ''Private email address'', column_name = ''Email''\<rparr>]
   = [''File Name'', ''Email'', ''Processed Date'']"
  by (simp add: table_defs claimed_column_order_def)

end
